theory Spec2Isabelle
  imports
    Main
    "HOL-Library.Product_Lexorder"
    "HOL-Library.List_Lexorder"
    "HOL-Library.Char_ord"
begin

section \<open>Data model\<close>

text \<open>
  The \<^verbatim>\<open>Phrase\<close> interface of \<^verbatim>\<open>src/types.ts\<close>. JavaScript numbers that hold counters
  and millisecond timestamps are modelled as \<^typ>\<open>int\<close>; \<^verbatim>\<open>number | null\<close> and the
  optional fields are options. The nested \<^verbatim>\<open>text\<close>, \<^verbatim>\<open>romanization\<close> and \<^verbatim>\<open>context\<close>
  objects are flattened into one field per leaf.
\<close>

record Phrase =
  phrase_id :: string
  text_native :: string
  text_learning :: string
  category :: string
  romanization_learning :: "string option"
  context_native :: "string option"
  masteryLevel :: int
  lastReviewedAt :: "int option"
  nextReviewAt :: int
  knowCount :: int
  knowStreak :: int
  isMastered :: bool
  lapses :: int
  isNew :: "bool option"

text \<open>\<^verbatim>\<open>PracticeReviewAction = 'know' | 'forgot' | 'dont_know'\<close> (\<^verbatim>\<open>src/types.ts\<close>).\<close>

datatype PracticeReviewAction = Know | Forgot | DontKnow

section \<open>Leech resolution actions (\<^verbatim>\<open>LeechModal.tsx\<close>)\<close>

text \<open>The action argument of \<^verbatim>\<open>handleLeechAction\<close>: \<^verbatim>\<open>'continue' | 'reset' | 'postpone'\<close>.\<close>

datatype LeechAction = Continue | Reset | Postpone

text \<open>
  The \<^verbatim>\<open>updatedPhrase\<close> that \<^verbatim>\<open>handleLeechAction\<close> computes. The source reads
  \<^verbatim>\<open>Date.now()\<close> once at the start; that reading is the argument \<open>now\<close>.
\<close>

definition handleLeechAction_updatedPhrase :: "Phrase \<Rightarrow> LeechAction \<Rightarrow> int \<Rightarrow> Phrase" where
  "handleLeechAction_updatedPhrase phrase action now =
     (if action = Continue then phrase\<lparr>nextReviewAt := now + 10 * 60 * 1000\<rparr>
      else if action = Reset then
        phrase\<lparr>masteryLevel := 0,
               lastReviewedAt := None,
               nextReviewAt := now,
               knowCount := 0,
               knowStreak := 0,
               lapses := 0,
               isMastered := False\<rparr>
      else phrase\<lparr>nextReviewAt := now + 24 * 60 * 60 * 1000\<rparr>)"

text \<open>
  The effect of \<^verbatim>\<open>handleLeechAction\<close> on the phrase list: the updated phrase is sent to
  the backend first, and only when that call does not throw is the list rewritten by
  \<^verbatim>\<open>prev.map((p) => (p.id === updatedPhrase.id ? updatedPhrase : p))\<close>.
\<close>

definition handleLeechAction :: "bool \<Rightarrow> Phrase \<Rightarrow> LeechAction \<Rightarrow> int \<Rightarrow> Phrase list \<Rightarrow> Phrase list" where
  "handleLeechAction backendOk phrase action now prev =
     (let updatedPhrase = handleLeechAction_updatedPhrase phrase action now
      in if backendOk
         then map (\<lambda>p. if phrase_id p = phrase_id updatedPhrase then updatedPhrase else p) prev
         else prev)"

section \<open>The scheduling engine (\<^verbatim>\<open>services/srsService\<close>)\<close>

text \<open>
  The module \<^verbatim>\<open>services/srsService\<close> (\<^verbatim>\<open>isLeech\<close>, \<^verbatim>\<open>updatePhraseMastery\<close>,
  \<^verbatim>\<open>selectNextPhrase\<close>, \<^verbatim>\<open>isPhraseMastered\<close>) is imported by \<^verbatim>\<open>App.tsx\<close> and by the
  data hook but is not among the sources. Every definition of this section is modelled
  from the specification and says so.
\<close>

text \<open>
  Modelled from the spec: the leech threshold of the missing \<^verbatim>\<open>srsService\<close>, design value
  four.
\<close>

definition LEECH_THRESHOLD :: int where
  "LEECH_THRESHOLD = 4"

text \<open>
  Modelled from the spec: \<^verbatim>\<open>isLeech\<close> of the missing \<^verbatim>\<open>srsService\<close>, the pure predicate
  \<^verbatim>\<open>lapses >= LEECH_THRESHOLD\<close>.
\<close>

definition isLeech :: "Phrase \<Rightarrow> bool" where
  "isLeech item = (lapses item \<ge> LEECH_THRESHOLD)"

text \<open>
  Modelled from the spec: the maximum tier of the missing \<^verbatim>\<open>srsService\<close>, design value
  seven.
\<close>

definition MAX_TIER :: int where
  "MAX_TIER = 7"

text \<open>
  Modelled from the spec: the tier from which an item counts as mastered, design value
  five; the constant belongs to the missing \<^verbatim>\<open>srsService\<close>.
\<close>

definition MASTERY_TIER :: int where
  "MASTERY_TIER = 5"

text \<open>
  Modelled from the spec: the promotion cadence of the missing \<^verbatim>\<open>srsService\<close>, one tier
  for every two consecutive successes.
\<close>

definition PROMOTION_STREAK :: int where
  "PROMOTION_STREAK = 2"

text \<open>
  Modelled from the spec: the interval policy of the missing \<^verbatim>\<open>srsService\<close>, the step
  table from tier to due-date offset, in milliseconds: ten minutes, one hour, eight hours,
  one, three, seven, fourteen and thirty days. Levels are clamped into the table: a level
  below the first tier takes the first entry, a level above the last tier the last one.
\<close>

definition interval :: "int \<Rightarrow> int" where
  "interval level =
     (if level \<le> 0 then 10 * 60 * 1000
      else if level = 1 then 60 * 60 * 1000
      else if level = 2 then 8 * 60 * 60 * 1000
      else if level = 3 then 24 * 60 * 60 * 1000
      else if level = 4 then 3 * 24 * 60 * 60 * 1000
      else if level = 5 then 7 * 24 * 60 * 60 * 1000
      else if level = 6 then 14 * 24 * 60 * 60 * 1000
      else 30 * 24 * 60 * 60 * 1000)"

text \<open>
  Modelled from the spec: \<^verbatim>\<open>isPhraseMastered\<close> of the missing \<^verbatim>\<open>srsService\<close>: the level
  has reached the mastery tier and the phrase's group is enabled.
\<close>

definition isPhraseMastered :: "Phrase \<Rightarrow> (string \<Rightarrow> bool) \<Rightarrow> bool" where
  "isPhraseMastered item groupEnabled = (masteryLevel item \<ge> MASTERY_TIER \<and> groupEnabled (category item))"

text \<open>
  Modelled from the spec: \<^verbatim>\<open>updatePhraseMastery\<close> of the missing \<^verbatim>\<open>srsService\<close>, the
  mastery state machine on a well-typed action, with the clock as the argument \<open>now\<close>.
  \<^item> know: count and streak grow by one; when the new streak is a multiple of the promotion
    streak the level grows by one, capped at the maximum tier.
  \<^item> forgot: the streak is zeroed, lapses grow by one, the level is halved rounded down
    (\<open>div\<close> on \<^typ>\<open>int\<close> rounds towards minus infinity, as \<^verbatim>\<open>Math.floor\<close>).
  \<^item> dont_know: on the item, identical to forgot; lapses grow by exactly one for both. The
    double weight of dont_know belongs to the internal failure accounting, modelled by
    \<open>failureWeight\<close> and \<open>accountFailure\<close> below: the item record has no field for it.
  In every case the phrase is due again after the interval of its new level, is marked as
  reviewed at \<open>now\<close>, and its mastered flag is recomputed.
\<close>

definition updatePhraseMastery :: "Phrase \<Rightarrow> PracticeReviewAction \<Rightarrow> (string \<Rightarrow> bool) \<Rightarrow> int \<Rightarrow> Phrase" where
  "updatePhraseMastery item act groupEnabled now =
     (let failed = item\<lparr>knowStreak := 0,
                        lapses := lapses item + 1,
                        masteryLevel := masteryLevel item div 2\<rparr>;
          counted =
            (case act of
               Know \<Rightarrow>
                 (let streak = knowStreak item + 1
                  in item\<lparr>knowCount := knowCount item + 1,
                          knowStreak := streak,
                          masteryLevel :=
                            (if streak mod PROMOTION_STREAK = 0
                             then min (masteryLevel item + 1) MAX_TIER
                             else masteryLevel item)\<rparr>)
             | Forgot \<Rightarrow> failed
             | DontKnow \<Rightarrow> failed);
          scheduled = counted\<lparr>nextReviewAt := now + interval (masteryLevel counted),
                              lastReviewedAt := Some now\<rparr>
      in scheduled\<lparr>isMastered := isPhraseMastered scheduled groupEnabled\<rparr>)"

text \<open>
  Modelled from the spec: the weight of an action in the internal failure accounting of the
  state machine of the missing \<^verbatim>\<open>srsService\<close>: forgot weighs one, dont_know two, know
  nothing.
\<close>

definition failureWeight :: "PracticeReviewAction \<Rightarrow> int" where
  "failureWeight act = (case act of Know \<Rightarrow> 0 | Forgot \<Rightarrow> 1 | DontKnow \<Rightarrow> 2)"

text \<open>
  Modelled from the spec: one step of the internal failure-weight counter of the state
  machine of the missing \<^verbatim>\<open>srsService\<close>: the counter grows by the weight of the action.
  The specification names no field of the item that keeps the counter and defines the
  leech detector on lapses alone.
\<close>

definition accountFailure :: "int \<Rightarrow> PracticeReviewAction \<Rightarrow> int" where
  "accountFailure counter act = counter + failureWeight act"

text \<open>
  Modelled from the spec: the two conditions under which the engine of the missing
  \<^verbatim>\<open>srsService\<close> rejects a call.
\<close>

datatype EngineError = InvalidAction | InvalidItemState

text \<open>
  Modelled from the spec: the action values that the engine of the missing \<^verbatim>\<open>srsService\<close>
  accepts, as the strings of the type \<^verbatim>\<open>PracticeReviewAction\<close>. Any other value is no
  action.
\<close>

definition parseAction :: "string \<Rightarrow> PracticeReviewAction option" where
  "parseAction a =
     (if a = ''know'' then Some Know
      else if a = ''forgot'' then Some Forgot
      else if a = ''dont_know'' then Some DontKnow
      else None)"

text \<open>
  Modelled from the spec: the item check of the missing \<^verbatim>\<open>srsService\<close>, the invariants of
  a review item that can be read off one record: the four counters are not negative, the
  streak does not exceed the count, and the item has no review time exactly when it has
  neither a success nor a lapse.
\<close>

definition validItem :: "Phrase \<Rightarrow> bool" where
  "validItem item =
     (0 \<le> masteryLevel item \<and> 0 \<le> knowStreak item \<and> 0 \<le> knowCount item \<and> 0 \<le> lapses item
      \<and> knowStreak item \<le> knowCount item
      \<and> ((lastReviewedAt item = None) = (knowCount item = 0 \<and> lapses item = 0)))"

text \<open>
  Modelled from the spec: the contract \<^verbatim>\<open>applyReview\<close> of the engine (the missing
  \<^verbatim>\<open>srsService\<close>) over an unchecked action value. An invalid action is rejected first, then an item that breaks the
  invariants; otherwise the result is the updated item and the crossed-into-leech flag,
  raised by a failure action that takes the item from not being a leech to being one.
\<close>

definition applyReview ::
  "Phrase \<Rightarrow> string \<Rightarrow> (string \<Rightarrow> bool) \<Rightarrow> int \<Rightarrow> EngineError + (Phrase \<times> bool)" where
  "applyReview item a groupEnabled now =
     (case parseAction a of
        None \<Rightarrow> Inl InvalidAction
      | Some act \<Rightarrow>
          if \<not> validItem item then Inl InvalidItemState
          else
            let updated = updatePhraseMastery item act groupEnabled now
            in Inr (updated, act \<noteq> Know \<and> \<not> isLeech item \<and> isLeech updated))"

text \<open>
  Modelled from the spec: the due test of the selector in the missing \<^verbatim>\<open>srsService\<close>: the
  review time of the item has come.
\<close>

definition due :: "int \<Rightarrow> Phrase \<Rightarrow> bool" where
  "due now item = (nextReviewAt item \<le> now)"

text \<open>
  Modelled from the spec: the selector's test for a new item (missing \<^verbatim>\<open>srsService\<close>): the
  item was never reviewed.
\<close>

definition isNewItem :: "Phrase \<Rightarrow> bool" where
  "isNewItem item = (lastReviewedAt item = None)"

text \<open>
  Modelled from the spec: the items the selector of the missing \<^verbatim>\<open>srsService\<close> may return,
  the due and the new ones; the caller in \<^verbatim>\<open>App.tsx\<close> reads a null result as "no due or
  new cards".
\<close>

definition eligible :: "int \<Rightarrow> Phrase \<Rightarrow> bool" where
  "eligible now item = (due now item \<or> isNewItem item)"

text \<open>
  Modelled from the spec: the rank of a due item in the selector of the missing
  \<^verbatim>\<open>srsService\<close>: ascending review time, then ascending streak, then id, compared
  lexicographically.
\<close>

definition rankKey :: "Phrase \<Rightarrow> int \<times> int \<times> string" where
  "rankKey item = (nextReviewAt item, knowStreak item, phrase_id item)"

text \<open>
  Modelled from the spec: the candidates of the selector of the missing \<^verbatim>\<open>srsService\<close> in
  rank order: the due items sorted by rank, followed by the new items that are not yet
  due, in pool order.
\<close>

definition ranked :: "Phrase list \<Rightarrow> int \<Rightarrow> Phrase list" where
  "ranked pool now =
     sort_key rankKey (filter (due now) pool)
     @ filter (\<lambda>item. \<not> due now item \<and> isNewItem item) pool"

text \<open>
  Modelled from the spec: \<^verbatim>\<open>selectNextPhrase\<close> of the missing \<^verbatim>\<open>srsService\<close>, with the
  clock as the argument \<open>now\<close>. The result is the first candidate, or the second one when
  the first has the id shown last and a second exists; with no candidate there is no
  result.
\<close>

definition selectNextPhrase :: "Phrase list \<Rightarrow> string option \<Rightarrow> int \<Rightarrow> Phrase option" where
  "selectNextPhrase pool lastShownId now =
     (case ranked pool now of
        [] \<Rightarrow> None
      | [first] \<Rightarrow> Some first
      | first # second # rest \<Rightarrow>
          if lastShownId = Some (phrase_id first) then Some second else Some first)"

text \<open>
  The frame of a rescheduling: every field of the phrase other than \<open>nextReviewAt\<close> has
  the same value in \<open>p\<close> and \<open>q\<close>.
\<close>

definition sameExceptNextReviewAt :: "Phrase \<Rightarrow> Phrase \<Rightarrow> bool" where
  "sameExceptNextReviewAt p q =
     (phrase_id q = phrase_id p
      \<and> text_native q = text_native p
      \<and> text_learning q = text_learning p
      \<and> category q = category p
      \<and> romanization_learning q = romanization_learning p
      \<and> context_native q = context_native p
      \<and> masteryLevel q = masteryLevel p
      \<and> lastReviewedAt q = lastReviewedAt p
      \<and> knowCount q = knowCount p
      \<and> knowStreak q = knowStreak p
      \<and> isMastered q = isMastered p
      \<and> lapses q = lapses p
      \<and> isNew q = isNew p)"

section \<open>The practice review log (\<^verbatim>\<open>useDataOperations\<close>)\<close>

text \<open>
  \<^verbatim>\<open>PracticeReviewLogEntry\<close> of \<^verbatim>\<open>src/types.ts\<close>. Its \<^verbatim>\<open>id\<close> and \<^verbatim>\<open>nextReviewAt\<close> fields are
  named \<open>entry_id\<close> and \<open>entry_nextReviewAt\<close> here.
\<close>

record PracticeReviewLogEntry =
  entry_id :: string
  timestamp :: int
  phraseId :: string
  categoryId :: string
  action :: PracticeReviewAction
  wasCorrect :: bool
  wasNew :: bool
  previousMasteryLevel :: int
  newMasteryLevel :: int
  previousKnowStreak :: int
  newKnowStreak :: int
  previousLapses :: int
  newLapses :: int
  previousNextReviewAt :: int
  entry_nextReviewAt :: int
  previousIsMastered :: bool
  newIsMastered :: bool
  previousKnowCount :: int
  newKnowCount :: int
  intervalMs :: int
  languageLearning :: string
  languageNative :: string
  isLeechAfter :: bool

text \<open>\<^verbatim>\<open>LanguageProfile\<close> of \<^verbatim>\<open>src/types.ts\<close>: three language codes.\<close>

record LanguageProfile =
  lp_ui :: string
  lp_native :: string
  lp_learning :: string

text \<open>
  What the hook \<^verbatim>\<open>useDataOperations\<close> closes over: the two functions of the missing
  \<^verbatim>\<open>srsService\<close> that the review path calls, the user id (\<^verbatim>\<open>user?.id\<close> in \<^verbatim>\<open>App.tsx\<close>,
  undefined while nobody is signed in) and the language profile. The
  source calls \<^verbatim>\<open>srsService.updatePhraseMastery(phrase, action, categories)\<close> without a
  time argument; the first argument of \<open>srs_updatePhraseMastery\<close> stands for the clock at
  the moment of the call and the category list is part of the closure.
\<close>

record Env =
  srs_updatePhraseMastery :: "int \<Rightarrow> Phrase \<Rightarrow> PracticeReviewAction \<Rightarrow> Phrase"
  srs_isLeech :: "Phrase \<Rightarrow> bool"
  userId :: "string option"
  languageProfile :: "LanguageProfile option"

text \<open>The part of the application state that a review reads and writes.\<close>

record AppState =
  allPhrases :: "Phrase list"
  currentPracticePhrase :: "Phrase option"
  practiceReviewLog :: "PracticeReviewLogEntry list"
  practiceIsExiting :: bool
  leechPhrase :: "Phrase option"
  isLeechModalOpen :: bool
  isPracticeAnswerRevealed :: bool
  practiceCardEvaluated :: bool

definition PRACTICE_REVIEW_LOG_LIMIT :: nat where
  "PRACTICE_REVIEW_LOG_LIMIT = 5000"

text \<open>
  \<^verbatim>\<open>appendPracticeReviewLog\<close>, as the state update it performs on the log. With a falsy
  user id (undefined or the empty string) it returns before touching the state. \<^verbatim>\<open>next.slice(next.length - LIMIT)\<close> drops the first \<open>length next - LIMIT\<close>
  entries. The write to \<^verbatim>\<open>localStorage\<close> sits in a \<^verbatim>\<open>try\<close> whose failure is only
  printed, so it does not change the value returned to the state.
\<close>

definition appendPracticeReviewLog ::
  "string option \<Rightarrow> PracticeReviewLogEntry \<Rightarrow> PracticeReviewLogEntry list
     \<Rightarrow> PracticeReviewLogEntry list" where
  "appendPracticeReviewLog uid entry prev =
     (if uid = None \<or> uid = Some [] then prev
      else
        let next = prev @ [entry];
            trimmed = (if length next > PRACTICE_REVIEW_LOG_LIMIT
                       then drop (length next - PRACTICE_REVIEW_LOG_LIMIT) next
                       else next)
        in trimmed)"

text \<open>Decimal rendering of an integer, as a template literal prints a timestamp.\<close>

definition digit_char :: "nat \<Rightarrow> char" where
  "digit_char d = ''0123456789'' ! (d mod 10)"

fun showNat :: "nat \<Rightarrow> string" where
  "showNat n = (if n < 10 then [digit_char n] else showNat (n div 10) @ [digit_char (n mod 10)])"

declare showNat.simps [simp del]

definition showInt :: "int \<Rightarrow> string" where
  "showInt i = (if i < 0 then CHR ''-'' # showNat (nat (- i)) else showNat (nat i))"

text \<open>
  The \<^verbatim>\<open>logEntry\<close> object built in \<^verbatim>\<open>updatePhraseMasteryAndCache\<close>. \<open>randomUUID\<close> is
  the result of \<^verbatim>\<open>crypto.randomUUID()\<close> when that function exists; \<open>logTimestamp\<close> is
  the reading of \<^verbatim>\<open>Date.now()\<close> taken for the entry. \<^verbatim>\<open>phrase.lapses ?? 0\<close> is
  \<^verbatim>\<open>phrase.lapses\<close> for the declared type \<^verbatim>\<open>number\<close>.
\<close>

definition reviewLogEntry ::
  "Env \<Rightarrow> string option \<Rightarrow> int \<Rightarrow> Phrase \<Rightarrow> PracticeReviewAction \<Rightarrow> Phrase \<Rightarrow> PracticeReviewLogEntry" where
  "reviewLogEntry env randomUUID logTimestamp phrase act updatedPhrase =
     \<lparr>entry_id = (case randomUUID of
                    Some u \<Rightarrow> u
                  | None \<Rightarrow> ''review_'' @ phrase_id phrase @ ''_'' @ showInt logTimestamp),
      timestamp = logTimestamp,
      phraseId = phrase_id phrase,
      categoryId = category phrase,
      action = act,
      wasCorrect = (act = Know),
      wasNew = (lastReviewedAt phrase = None),
      previousMasteryLevel = masteryLevel phrase,
      newMasteryLevel = masteryLevel updatedPhrase,
      previousKnowStreak = knowStreak phrase,
      newKnowStreak = knowStreak updatedPhrase,
      previousLapses = lapses phrase,
      newLapses = lapses updatedPhrase,
      previousNextReviewAt = nextReviewAt phrase,
      entry_nextReviewAt = nextReviewAt updatedPhrase,
      previousIsMastered = isMastered phrase,
      newIsMastered = isMastered updatedPhrase,
      previousKnowCount = knowCount phrase,
      newKnowCount = knowCount updatedPhrase,
      intervalMs = max (nextReviewAt updatedPhrase - logTimestamp) 0,
      languageLearning = (case languageProfile env of Some lp \<Rightarrow> lp_learning lp | None \<Rightarrow> []),
      languageNative = (case languageProfile env of Some lp \<Rightarrow> lp_native lp | None \<Rightarrow> []),
      isLeechAfter = srs_isLeech env updatedPhrase\<rparr>"

text \<open>
  \<^verbatim>\<open>updatePhraseMasteryAndCache\<close>: the phrase is updated by the scheduling service (clock
  reading \<open>t\<close>), replaced in the phrase list by id, made the current practice phrase when
  the current one has the same id, and the transition is appended to the review log. The
  backend call only shows a toast when it fails and the sounds and the cache of generated
  content are outside the model. The result is the updated phrase and the new state.
\<close>

definition updatePhraseMasteryAndCache ::
  "Env \<Rightarrow> int \<Rightarrow> string option \<Rightarrow> int \<Rightarrow> Phrase \<Rightarrow> PracticeReviewAction \<Rightarrow> AppState
     \<Rightarrow> Phrase \<times> AppState" where
  "updatePhraseMasteryAndCache env t randomUUID logTimestamp phrase act st =
     (let updatedPhrase = srs_updatePhraseMastery env t phrase act;
          st1 = st\<lparr>allPhrases :=
                     map (\<lambda>p. if phrase_id p = phrase_id phrase then updatedPhrase else p)
                       (allPhrases st)\<rparr>;
          st2 = (if map_option phrase_id (currentPracticePhrase st1) = Some (phrase_id phrase)
                 then st1\<lparr>currentPracticePhrase := Some updatedPhrase\<rparr>
                 else st1);
          logEntry = reviewLogEntry env randomUUID logTimestamp phrase act updatedPhrase
      in (updatedPhrase,
          st2\<lparr>practiceReviewLog :=
                 appendPracticeReviewLog (userId env) logEntry (practiceReviewLog st2)\<rparr>))"

section \<open>The review handler (\<^verbatim>\<open>App.tsx\<close>)\<close>

text \<open>
  \<^verbatim>\<open>handlePracticeUpdateMastery\<close>. The boolean result is the source's return value, true
  when the leech dialog was opened. \<open>t1\<close> is the clock at the handler's own call of the
  scheduling service, \<open>t2\<close> the clock at the call made inside
  \<^verbatim>\<open>updatePhraseMasteryAndCache\<close>. The usage statistics of the three buttons
  (floating-point decayed counters) are outside the model.
\<close>

definition handlePracticeUpdateMastery ::
  "Env \<Rightarrow> int \<Rightarrow> int \<Rightarrow> string option \<Rightarrow> int \<Rightarrow> PracticeReviewAction \<Rightarrow> AppState
     \<Rightarrow> bool \<times> AppState" where
  "handlePracticeUpdateMastery env t1 t2 randomUUID logTimestamp act st =
     (case currentPracticePhrase st of
        None \<Rightarrow> (False, st)
      | Some originalPhrase \<Rightarrow>
          if practiceIsExiting st then (False, st)
          else
            let srsUpdatedPhrase = srs_updatePhraseMastery env t1 originalPhrase act;
                wasLeech = srs_isLeech env originalPhrase;
                isNowLeech = srs_isLeech env srsUpdatedPhrase
            in if (act = Forgot \<or> act = DontKnow) \<and> \<not> wasLeech \<and> isNowLeech
               then
                 (case updatePhraseMasteryAndCache env t2 randomUUID logTimestamp originalPhrase act st of
                    (backendUpdatedPhrase, st') \<Rightarrow>
                      (True, st'\<lparr>leechPhrase := Some backendUpdatedPhrase, isLeechModalOpen := True\<rparr>))
               else
                 (case updatePhraseMasteryAndCache env t2 randomUUID logTimestamp originalPhrase act st of
                    (finalPhraseState, st') \<Rightarrow>
                      (False,
                       st'\<lparr>isPracticeAnswerRevealed :=
                              (if act \<noteq> Know then True else isPracticeAnswerRevealed st'),
                            practiceCardEvaluated := (act = Know),
                            currentPracticePhrase := Some finalPhraseState\<rparr>)))"

section \<open>Concrete inputs\<close>

text \<open>
  A phrase at mastery level three with three lapses, an environment whose scheduling
  service is the engine above with every group enabled, a state that is practising that
  phrase, and the log entry of forgetting it at a given time. The theorems below are
  instantiated at these values.
\<close>

definition examplePhrase :: Phrase where
  "examplePhrase =
     \<lparr>phrase_id = ''p1'', text_native = ''good morning'', text_learning = ''guten Morgen'',
      category = ''general'', romanization_learning = None, context_native = None,
      masteryLevel = 3, lastReviewedAt = Some 1000, nextReviewAt = 2000, knowCount = 6,
      knowStreak = 2, isMastered = False, lapses = 3, isNew = None\<rparr>"

definition exampleEnv :: Env where
  "exampleEnv =
     \<lparr>srs_updatePhraseMastery = (\<lambda>t item act. updatePhraseMastery item act (\<lambda>g. True) t),
      srs_isLeech = isLeech,
      userId = Some ''u1'',
      languageProfile = Some \<lparr>lp_ui = ''en'', lp_native = ''en'', lp_learning = ''de''\<rparr>\<rparr>"

definition exampleState :: AppState where
  "exampleState =
     \<lparr>allPhrases = [examplePhrase], currentPracticePhrase = Some examplePhrase,
      practiceReviewLog = [], practiceIsExiting = False, leechPhrase = None,
      isLeechModalOpen = False, isPracticeAnswerRevealed = False,
      practiceCardEvaluated = False\<rparr>"

definition exampleEntry :: "int \<Rightarrow> PracticeReviewLogEntry" where
  "exampleEntry t =
     reviewLogEntry exampleEnv None t examplePhrase Forgot
       (updatePhraseMastery examplePhrase Forgot (\<lambda>g. True) t)"

definition examplePool :: "Phrase list" where
  "examplePool = [examplePhrase, examplePhrase\<lparr>phrase_id := ''p2'', nextReviewAt := 3000\<rparr>]"

section \<open>Leech resolution: verified properties\<close>

text \<open>
  Claim C2. For every phrase and every clock reading \<open>now\<close>, the reset action of the leech
  dialog yields a phrase with mastery level, know streak, know count and lapses all zero,
  not mastered, never reviewed (\<open>lastReviewedAt\<close> null) and due at \<open>now\<close>; the result is
  not a leech.
\<close>

theorem reset_progress_zeroes_item:
  "masteryLevel (handleLeechAction_updatedPhrase phrase Reset now) = 0
   \<and> knowStreak (handleLeechAction_updatedPhrase phrase Reset now) = 0
   \<and> knowCount (handleLeechAction_updatedPhrase phrase Reset now) = 0
   \<and> lapses (handleLeechAction_updatedPhrase phrase Reset now) = 0
   \<and> isMastered (handleLeechAction_updatedPhrase phrase Reset now) = False
   \<and> lastReviewedAt (handleLeechAction_updatedPhrase phrase Reset now) = None
   \<and> nextReviewAt (handleLeechAction_updatedPhrase phrase Reset now) = now
   \<and> isLeech (handleLeechAction_updatedPhrase phrase Reset now) = False"
  by (simp add: handleLeechAction_updatedPhrase_def isLeech_def LEECH_THRESHOLD_def)

text \<open>
  Claim C3. The continue (retry shortly) action moves the due time to \<open>now\<close> plus ten
  minutes and the postpone action to \<open>now\<close> plus twenty-four hours, in milliseconds; in
  both cases the result is the input phrase with only \<open>nextReviewAt\<close> replaced, so the
  counters, the review time, the mastered flag, the id, the texts and the category are
  those of the input.
\<close>

theorem retry_and_postpone_only_reschedule:
  "handleLeechAction_updatedPhrase phrase Continue now = phrase\<lparr>nextReviewAt := now + 600000\<rparr>
   \<and> handleLeechAction_updatedPhrase phrase Postpone now = phrase\<lparr>nextReviewAt := now + 86400000\<rparr>
   \<and> nextReviewAt (handleLeechAction_updatedPhrase phrase Continue now) = now + 10 * 60 * 1000
   \<and> nextReviewAt (handleLeechAction_updatedPhrase phrase Postpone now) = now + 24 * 60 * 60 * 1000
   \<and> sameExceptNextReviewAt phrase (handleLeechAction_updatedPhrase phrase Continue now)
   \<and> sameExceptNextReviewAt phrase (handleLeechAction_updatedPhrase phrase Postpone now)"
  by (simp add: handleLeechAction_updatedPhrase_def sameExceptNextReviewAt_def)

text \<open>
  The phrase list after a leech action: with a successful backend call the phrase with
  the acted-on id is replaced by the updated phrase, otherwise the list is untouched.
\<close>

lemma handleLeechAction_replaces_by_id:
  "handleLeechAction True phrase act now prev
     = map (\<lambda>p. if phrase_id p = phrase_id phrase
                  then handleLeechAction_updatedPhrase phrase act now else p) prev
   \<and> handleLeechAction False phrase act now prev = prev"
  by (cases act) (simp_all add: handleLeechAction_def handleLeechAction_updatedPhrase_def Let_def)

section \<open>The review log: verified properties\<close>

lemma exampleEntry_timestamp: "timestamp (exampleEntry t) = t"
  by (simp add: exampleEntry_def reviewLogEntry_def)

lemma exampleEntry_1_neq_2: "exampleEntry 1 \<noteq> exampleEntry 2"
proof
  assume "exampleEntry 1 = exampleEntry 2"
  then have "timestamp (exampleEntry 1) = timestamp (exampleEntry 2)" by simp
  then show False by (simp add: exampleEntry_timestamp)
qed

text \<open>
  Claim C8, as stated, fails: the log is not extended for every entry. While nobody is
  signed in the user id is undefined and the append returns before the state update, so a
  log holding one entry still ends with that entry and not with the new one.
\<close>

theorem append_log_without_user_counterexample:
  "length [exampleEntry 1] \<le> 5000
   \<and> appendPracticeReviewLog None (exampleEntry 2) [exampleEntry 1] = [exampleEntry 1]
   \<and> last (appendPracticeReviewLog None (exampleEntry 2) [exampleEntry 1]) \<noteq> exampleEntry 2"
  using exampleEntry_1_neq_2 by (simp add: appendPracticeReviewLog_def)

text \<open>
  Claim C8, amended. When the user id is defined and not empty, appending an entry to any
  log yields the last 5000 elements of the old log followed by the entry: the new entry is
  last, the length is the smaller of the old length plus one and 5000, a log below
  capacity is extended unchanged, and a log at capacity loses exactly its oldest entry.
  The retained entries are a suffix of the old log followed by the entry, so none is
  altered. When the user id is undefined or empty, the log is left as it was.
\<close>

theorem append_log_bounded_fifo:
  "(uid \<noteq> None \<and> uid \<noteq> Some [] \<longrightarrow>
      appendPracticeReviewLog uid entry prev
        = drop (length prev + 1 - PRACTICE_REVIEW_LOG_LIMIT) (prev @ [entry])
      \<and> last (appendPracticeReviewLog uid entry prev) = entry
      \<and> length (appendPracticeReviewLog uid entry prev) = min (length prev + 1) 5000
      \<and> length (appendPracticeReviewLog uid entry prev) \<le> 5000
      \<and> (length prev < 5000 \<longrightarrow> appendPracticeReviewLog uid entry prev = prev @ [entry])
      \<and> (length prev = 5000 \<longrightarrow> appendPracticeReviewLog uid entry prev = tl prev @ [entry]))
   \<and> (uid = None \<or> uid = Some [] \<longrightarrow> appendPracticeReviewLog uid entry prev = prev)"
proof -
  have at_capacity: "length prev = 5000 \<Longrightarrow> drop (Suc 0) prev = tl prev"
    by (simp add: drop_Suc)
  show ?thesis
    by (auto simp add: appendPracticeReviewLog_def PRACTICE_REVIEW_LOG_LIMIT_def Let_def
          min_def at_capacity drop_Suc)
qed

theorem append_log_bounded_fifo_witness:
  "Some ''u1'' \<noteq> None \<and> Some ''u1'' \<noteq> Some [] \<and> length (replicate 5000 (exampleEntry 1)) = 5000
   \<and> appendPracticeReviewLog (Some ''u1'') (exampleEntry 2) (replicate 5000 (exampleEntry 1))
       = tl (replicate 5000 (exampleEntry 1)) @ [exampleEntry 2]
   \<and> length (appendPracticeReviewLog (Some ''u1'') (exampleEntry 2) (replicate 5000 (exampleEntry 1)))
       = 5000
   \<and> appendPracticeReviewLog (Some ''u1'') (exampleEntry 2) [exampleEntry 1]
       = [exampleEntry 1, exampleEntry 2]
   \<and> appendPracticeReviewLog None (exampleEntry 2) [] = []"
  using append_log_bounded_fifo [of "Some ''u1''" "exampleEntry 2" "replicate 5000 (exampleEntry 1)"]
    append_log_bounded_fifo [of "Some ''u1''" "exampleEntry 2" "[exampleEntry 1]"]
    append_log_bounded_fifo [of None "exampleEntry 2" "[]"]
  by (simp add: PRACTICE_REVIEW_LOG_LIMIT_def)

text \<open>
  Claim C10. The log entry built for a review of phrase \<open>p\<close> with action \<open>a\<close>, where \<open>t\<close>
  is the time recorded as the entry's timestamp and \<open>u\<close> is the updated phrase: each \<open>previous\<close> field is the field of \<open>p\<close>, each
  \<open>new\<close> field (and the entry's \<open>nextReviewAt\<close>) is the field of \<open>u\<close>, \<open>wasCorrect\<close> holds
  exactly for the action know, \<open>wasNew\<close> exactly when \<open>p\<close> had no review time, and
  \<open>intervalMs\<close> is the larger of \<open>nextReviewAt u - t\<close> and zero, hence not negative. The
  entry that \<^verbatim>\<open>updatePhraseMasteryAndCache\<close> appends to the log is this entry for the
  phrase returned by the scheduling service.
\<close>

theorem review_log_entry_snapshots_transition:
  "previousMasteryLevel (reviewLogEntry env uuid t p a u) = masteryLevel p
   \<and> previousKnowStreak (reviewLogEntry env uuid t p a u) = knowStreak p
   \<and> previousLapses (reviewLogEntry env uuid t p a u) = lapses p
   \<and> previousNextReviewAt (reviewLogEntry env uuid t p a u) = nextReviewAt p
   \<and> previousIsMastered (reviewLogEntry env uuid t p a u) = isMastered p
   \<and> previousKnowCount (reviewLogEntry env uuid t p a u) = knowCount p
   \<and> newMasteryLevel (reviewLogEntry env uuid t p a u) = masteryLevel u
   \<and> newKnowStreak (reviewLogEntry env uuid t p a u) = knowStreak u
   \<and> newLapses (reviewLogEntry env uuid t p a u) = lapses u
   \<and> entry_nextReviewAt (reviewLogEntry env uuid t p a u) = nextReviewAt u
   \<and> newIsMastered (reviewLogEntry env uuid t p a u) = isMastered u
   \<and> newKnowCount (reviewLogEntry env uuid t p a u) = knowCount u
   \<and> wasCorrect (reviewLogEntry env uuid t p a u) = (a = Know)
   \<and> wasNew (reviewLogEntry env uuid t p a u) = (lastReviewedAt p = None)
   \<and> intervalMs (reviewLogEntry env uuid t p a u) = max (nextReviewAt u - t) 0
   \<and> 0 \<le> intervalMs (reviewLogEntry env uuid t p a u)
   \<and> timestamp (reviewLogEntry env uuid t p a u) = t
   \<and> phraseId (reviewLogEntry env uuid t p a u) = phrase_id p
   \<and> action (reviewLogEntry env uuid t p a u) = a
   \<and> fst (updatePhraseMasteryAndCache env t0 uuid t p a st) = srs_updatePhraseMastery env t0 p a
   \<and> practiceReviewLog (snd (updatePhraseMasteryAndCache env t0 uuid t p a st))
       = appendPracticeReviewLog (userId env)
           (reviewLogEntry env uuid t p a (srs_updatePhraseMastery env t0 p a))
           (practiceReviewLog st)"
  by (simp add: reviewLogEntry_def updatePhraseMasteryAndCache_def Let_def)

text \<open>
  The entry id falls back to the phrase id and the timestamp when no random id is
  available, and the phrase list is rewritten by id.
\<close>

lemma showInt_example: "showInt 5002 = ''5002''"
  by (simp add: showInt_def showNat.simps digit_char_def)

lemma entry_id_example:
  "entry_id (reviewLogEntry exampleEnv None 5002 examplePhrase Forgot u) = ''review_p1_5002''
   \<and> entry_id (reviewLogEntry exampleEnv (Some ''0f8fad5b'') 5002 examplePhrase Forgot u)
       = ''0f8fad5b''"
  by (simp add: reviewLogEntry_def examplePhrase_def showInt_example)

lemma updatePhraseMasteryAndCache_pool:
  "allPhrases (snd (updatePhraseMasteryAndCache env t0 uuid t p a st))
     = map (\<lambda>q. if phrase_id q = phrase_id p then srs_updatePhraseMastery env t0 p a else q)
         (allPhrases st)"
  by (simp add: updatePhraseMasteryAndCache_def Let_def)

section \<open>The review handler: verified properties\<close>

text \<open>
  Claim C4. The crossed-into-leech report of the review handler is edge-triggered. When a
  phrase is being practised and no card transition is under way, a failure action (forgot
  or dont_know) reports true exactly when the phrase was not a leech before the update and
  the updated phrase is one; so for a phrase that is already a leech no failure action
  reports true. This holds for whatever update and leech predicate the scheduling service
  provides.
\<close>

theorem crossed_into_leech_edge_triggered:
  "currentPracticePhrase st = Some p \<Longrightarrow> \<not> practiceIsExiting st \<Longrightarrow> a = Forgot \<or> a = DontKnow \<Longrightarrow>
   fst (handlePracticeUpdateMastery env t1 t2 uuid ts a st)
     = (\<not> srs_isLeech env p \<and> srs_isLeech env (srs_updatePhraseMastery env t1 p a))
   \<and> (srs_isLeech env p \<longrightarrow> \<not> fst (handlePracticeUpdateMastery env t1 t2 uuid ts a st))"
  by (auto simp add: handlePracticeUpdateMastery_def Let_def split: prod.splits)

theorem crossed_into_leech_edge_triggered_witness:
  "currentPracticePhrase exampleState = Some examplePhrase \<and> \<not> practiceIsExiting exampleState
   \<and> \<not> srs_isLeech exampleEnv examplePhrase
   \<and> fst (handlePracticeUpdateMastery exampleEnv 5000 5001 None 5002 DontKnow exampleState)
   \<and> srs_isLeech exampleEnv (examplePhrase\<lparr>lapses := 4\<rparr>)
   \<and> \<not> fst (handlePracticeUpdateMastery exampleEnv 5000 5001 None 5002 DontKnow
              (exampleState\<lparr>currentPracticePhrase := Some (examplePhrase\<lparr>lapses := 4\<rparr>)\<rparr>))"
  using crossed_into_leech_edge_triggered [of exampleState examplePhrase DontKnow exampleEnv 5000 5001 None 5002]
    crossed_into_leech_edge_triggered [of "exampleState\<lparr>currentPracticePhrase := Some (examplePhrase\<lparr>lapses := 4\<rparr>)\<rparr>"
      "examplePhrase\<lparr>lapses := 4\<rparr>" DontKnow exampleEnv 5000 5001 None 5002]
  by (simp add: exampleState_def exampleEnv_def examplePhrase_def isLeech_def LEECH_THRESHOLD_def
        updatePhraseMastery_def Let_def)

text \<open>
  Outside the scope of the claim: with no phrase in practice, or during a card transition,
  the handler does nothing and reports false; the know action never reports.
\<close>

lemma handler_guard:
  "currentPracticePhrase st = None \<or> practiceIsExiting st \<Longrightarrow>
   handlePracticeUpdateMastery env t1 t2 uuid ts a st = (False, st)"
  by (auto simp add: handlePracticeUpdateMastery_def split: option.splits)

lemma handler_know_never_reports:
  "\<not> fst (handlePracticeUpdateMastery env t1 t2 uuid ts Know st)"
  by (auto simp add: handlePracticeUpdateMastery_def Let_def split: option.splits prod.splits)

section \<open>The mastery state machine: verified properties\<close>

lemma parseAction_know: "parseAction ''know'' = Some Know"
  by (simp add: parseAction_def)

lemma parseAction_forgot: "parseAction ''forgot'' = Some Forgot"
  by (simp add: parseAction_def)

lemma parseAction_dont_know: "parseAction ''dont_know'' = Some DontKnow"
  by (simp add: parseAction_def)

lemma validItem_examplePhrase: "validItem examplePhrase"
  by (simp add: validItem_def examplePhrase_def)

lemma interval_tier_1: "interval 1 = 3600000"
  by (simp add: interval_def)

text \<open>
  Claim C1. For every item and every time \<open>now\<close>, the forgot action zeroes the streak,
  adds exactly one lapse, sets the mastery level to the floor of half its previous value
  (the level \<open>m'\<close> with \<open>2 * m' \<le> m < 2 * m' + 2\<close>), records \<open>now\<close> as the review time and
  makes the item due at \<open>now\<close> plus the interval of the halved level; an item at level
  three ends at level one, due one hour after \<open>now\<close>. The engine's checked entry point
  returns this item for every item that satisfies the invariants of the data model.
\<close>

theorem forgot_halves_mastery_level:
  "knowStreak (updatePhraseMastery item Forgot g now) = 0
   \<and> lapses (updatePhraseMastery item Forgot g now) = lapses item + 1
   \<and> masteryLevel (updatePhraseMastery item Forgot g now) = masteryLevel item div 2
   \<and> 2 * masteryLevel (updatePhraseMastery item Forgot g now) \<le> masteryLevel item
   \<and> masteryLevel item < 2 * masteryLevel (updatePhraseMastery item Forgot g now) + 2
   \<and> lastReviewedAt (updatePhraseMastery item Forgot g now) = Some now
   \<and> nextReviewAt (updatePhraseMastery item Forgot g now)
        = now + interval (masteryLevel item div 2)
   \<and> (masteryLevel item = 3 \<longrightarrow>
         masteryLevel (updatePhraseMastery item Forgot g now) = 1
         \<and> nextReviewAt (updatePhraseMastery item Forgot g now) = now + 60 * 60 * 1000)
   \<and> (validItem item \<longrightarrow>
         applyReview item ''forgot'' g now
           = Inr (updatePhraseMastery item Forgot g now,
                  \<not> isLeech item \<and> isLeech (updatePhraseMastery item Forgot g now)))"
proof -
  have floor_half: "2 * (masteryLevel item div 2) \<le> masteryLevel item
      \<and> masteryLevel item < 2 * (masteryLevel item div 2) + 2"
    by presburger
  show ?thesis
    using floor_half
    by (simp add: updatePhraseMastery_def applyReview_def parseAction_forgot Let_def interval_tier_1)
qed

theorem forgot_halves_mastery_level_witness:
  "masteryLevel examplePhrase = 3 \<and> validItem examplePhrase
   \<and> (\<exists>updated. applyReview examplePhrase ''forgot'' (\<lambda>g. True) 5000 = Inr (updated, True)
        \<and> masteryLevel updated = 1 \<and> knowStreak updated = 0 \<and> lapses updated = 4
        \<and> lastReviewedAt updated = Some 5000 \<and> nextReviewAt updated = 3605000)"
  using forgot_halves_mastery_level [of examplePhrase "\<lambda>g. True" 5000] validItem_examplePhrase
  by (simp add: examplePhrase_def isLeech_def LEECH_THRESHOLD_def)

text \<open>
  Claim C9. The engine rejects contract violations. An action value other than know,
  forgot and dont_know is rejected as an invalid action, whatever the item. An item that
  breaks the invariants of the data model never yields an updated item, and with any of the
  three actions it is rejected as an invalid item state. An item whose streak exceeds its
  count is such an item.
\<close>

theorem engine_rejects_contract_violations:
  "(a \<noteq> ''know'' \<and> a \<noteq> ''forgot'' \<and> a \<noteq> ''dont_know'' \<longrightarrow>
      applyReview item a g now = Inl InvalidAction)
   \<and> (\<not> validItem item \<longrightarrow>
        (\<forall>result. applyReview item a g now \<noteq> Inr result)
        \<and> ((a = ''know'' \<or> a = ''forgot'' \<or> a = ''dont_know'') \<longrightarrow>
             applyReview item a g now = Inl InvalidItemState))
   \<and> (knowCount item < knowStreak item \<longrightarrow> \<not> validItem item)"
  by (auto simp add: applyReview_def parseAction_def validItem_def split: option.splits)

theorem engine_rejects_contract_violations_witness:
  "''maybe'' \<noteq> ''know'' \<and> ''maybe'' \<noteq> ''forgot'' \<and> ''maybe'' \<noteq> ''dont_know''
   \<and> applyReview examplePhrase ''maybe'' (\<lambda>g. True) 5000 = Inl InvalidAction
   \<and> knowCount (examplePhrase\<lparr>knowStreak := 7\<rparr>) < knowStreak (examplePhrase\<lparr>knowStreak := 7\<rparr>)
   \<and> \<not> validItem (examplePhrase\<lparr>knowStreak := 7\<rparr>)
   \<and> applyReview (examplePhrase\<lparr>knowStreak := 7\<rparr>) ''know'' (\<lambda>g. True) 5000 = Inl InvalidItemState"
  using engine_rejects_contract_violations [of "''maybe''" examplePhrase "\<lambda>g. True" 5000]
    engine_rejects_contract_violations [of "''know''" "examplePhrase\<lparr>knowStreak := 7\<rparr>" "\<lambda>g. True" 5000]
  by (simp add: examplePhrase_def)

text \<open>
  The model of the state machine agrees with the worked scenarios of the specification: a
  new item answered with know has count and streak one, stays at level zero and is due in
  ten minutes; the fourth lapse of a valid item raises the crossed-into-leech flag. The
  interval table is monotone.
\<close>

lemma scenario_new_item_know:
  "lastReviewedAt item = None \<Longrightarrow> knowCount item = 0 \<Longrightarrow> knowStreak item = 0 \<Longrightarrow>
   masteryLevel item = 0 \<Longrightarrow>
   knowCount (updatePhraseMastery item Know g now) = 1
   \<and> knowStreak (updatePhraseMastery item Know g now) = 1
   \<and> masteryLevel (updatePhraseMastery item Know g now) = 0
   \<and> nextReviewAt (updatePhraseMastery item Know g now) = now + 10 * 60 * 1000"
  by (simp add: updatePhraseMastery_def Let_def PROMOTION_STREAK_def interval_def)

lemma scenario_fourth_lapse:
  "validItem item \<Longrightarrow> lapses item = 3 \<Longrightarrow>
   applyReview item ''dont_know'' g now = Inr (updatePhraseMastery item DontKnow g now, True)
   \<and> lapses (updatePhraseMastery item DontKnow g now) = 4"
  by (simp add: applyReview_def parseAction_dont_know Let_def isLeech_def LEECH_THRESHOLD_def
        updatePhraseMastery_def)

lemma interval_mono: "l \<le> l' \<Longrightarrow> interval l \<le> interval l'"
  by (simp add: interval_def)

section \<open>Invariants of the state machine\<close>

text \<open>
  Every review keeps the invariants of the data model, and no review takes an item out of
  the leech state.
\<close>

lemma update_keeps_valid:
  "validItem item \<Longrightarrow> validItem (updatePhraseMastery item act g now)"
  by (cases act) (auto simp add: validItem_def updatePhraseMastery_def Let_def MAX_TIER_def)

lemma leech_persists:
  "isLeech item \<Longrightarrow> isLeech (updatePhraseMastery item act g now)"
  by (cases act) (simp_all add: isLeech_def updatePhraseMastery_def Let_def)

section \<open>The candidate selector: verified properties\<close>

lemma length_filter_due_new:
  "length (filter P xs) + length (filter (\<lambda>x. \<not> P x \<and> Q x) xs)
     = length (filter (\<lambda>x. P x \<or> Q x) xs)"
  by (induction xs) auto

lemma length_ranked: "length (ranked pool now) = length (filter (eligible now) pool)"
proof -
  have "eligible now = (\<lambda>item. due now item \<or> isNewItem item)"
    by (simp add: eligible_def fun_eq_iff)
  then show ?thesis
    by (simp add: ranked_def length_filter_due_new)
qed

lemma set_ranked: "set (ranked pool now) = {item \<in> set pool. eligible now item}"
  by (auto simp add: ranked_def eligible_def)

lemma distinct_ids_ranked:
  assumes "distinct (map phrase_id pool)"
  shows "distinct (map phrase_id (ranked pool now))"
proof -
  from assms have d: "distinct pool" and inj: "inj_on phrase_id (set pool)"
    by (simp_all add: distinct_map)
  have "distinct (ranked pool now)"
    using d by (auto simp add: ranked_def)
  moreover have "inj_on phrase_id (set (ranked pool now))"
    using inj by (rule inj_on_subset) (auto simp add: set_ranked)
  ultimately show ?thesis by (simp add: distinct_map)
qed

text \<open>
  Claim C6. For every pool of items with pairwise different ids that holds at least two
  eligible (due or new) items, every last shown id and every time \<open>now\<close>, the selector
  returns an eligible item of the pool whose id is not the last shown id.
\<close>

theorem select_next_never_repeats:
  assumes "distinct (map phrase_id pool)"
    and "2 \<le> length (filter (eligible now) pool)"
  shows "\<exists>chosen. selectNextPhrase pool lastShownId now = Some chosen
           \<and> chosen \<in> set pool \<and> eligible now chosen
           \<and> lastShownId \<noteq> Some (phrase_id chosen)"
proof -
  from assms(2) have "2 \<le> length (ranked pool now)"
    by (simp add: length_ranked)
  then obtain x y rest where r: "ranked pool now = x # y # rest"
    by (cases "ranked pool now"; cases "tl (ranked pool now)") auto
  from distinct_ids_ranked [OF assms(1), of now] r
  have neq: "phrase_id x \<noteq> phrase_id y" by auto
  have "x \<in> set (ranked pool now)" and "y \<in> set (ranked pool now)"
    using r by simp_all
  then have mem: "x \<in> set pool \<and> eligible now x \<and> y \<in> set pool \<and> eligible now y"
    by (simp add: set_ranked)
  show ?thesis
    using r neq mem by (auto simp add: selectNextPhrase_def)
qed

theorem select_next_never_repeats_witness:
  "distinct (map phrase_id examplePool)
   \<and> 2 \<le> length (filter (eligible 5000) examplePool)
   \<and> (\<exists>chosen. selectNextPhrase examplePool (Some ''p1'') 5000 = Some chosen
         \<and> Some ''p1'' \<noteq> Some (phrase_id chosen))"
proof -
  have d: "distinct (map phrase_id examplePool)"
    by (simp add: examplePool_def examplePhrase_def)
  have e: "2 \<le> length (filter (eligible 5000) examplePool)"
    by (simp add: examplePool_def examplePhrase_def eligible_def due_def)
  from select_next_never_repeats [OF d e, of "Some ''p1''"] d e
  show ?thesis by blast
qed

text \<open>
  The model of the selector follows the steps of the specification: nothing is returned
  exactly when the pool has no eligible item; with no last shown id and a due item in the
  pool the result is a due item of least rank (review time, then streak, then id); and
  when nothing is due the result is the first new item in pool order.
\<close>

lemma select_none_iff:
  "(selectNextPhrase pool lastShownId now = None) = (\<forall>item \<in> set pool. \<not> eligible now item)"
proof -
  have "(ranked pool now = []) = (\<forall>item \<in> set pool. \<not> eligible now item)"
    using set_ranked [of pool now] by (metis (mono_tags, lifting) empty_Collect_eq set_empty)
  then show ?thesis
    by (auto simp add: selectNextPhrase_def split: list.splits)
qed

lemma select_due_first:
  assumes "selectNextPhrase pool None now = Some chosen" and "\<exists>item \<in> set pool. due now item"
  shows "due now chosen \<and> (\<forall>item \<in> set pool. due now item \<longrightarrow> rankKey chosen \<le> rankKey item)"
proof -
  let ?d = "sort_key rankKey (filter (due now) pool)"
  from assms(2) have ne: "?d \<noteq> []"
    by (metis (mono_tags, lifting) empty_filter_conv length_0_conv length_sort)
  then obtain x xs where dx: "?d = x # xs" by (cases ?d) auto
  then have "ranked pool now = x # (xs @ filter (\<lambda>item. \<not> due now item \<and> isNewItem item) pool)"
    by (simp add: ranked_def)
  then have ch: "chosen = x"
    using assms(1) by (auto simp add: selectNextPhrase_def split: list.splits)
  have srt: "sorted (map rankKey ?d)" by (rule sorted_sort_key)
  have "x \<in> set ?d" using dx by simp
  then have "due now x" by simp
  moreover have "\<forall>item \<in> set ?d. rankKey x \<le> rankKey item"
    using srt dx by auto
  ultimately show ?thesis using ch by auto
qed

lemma select_new_in_pool_order:
  assumes "\<forall>item \<in> set pool. \<not> due now item"
  shows "selectNextPhrase pool None now
           = (case filter isNewItem pool of [] \<Rightarrow> None | item # rest \<Rightarrow> Some item)"
proof -
  from assms have "filter (due now) pool = []" by (simp add: filter_empty_conv)
  moreover from assms
  have "filter (\<lambda>item. \<not> due now item \<and> isNewItem item) pool = filter isNewItem pool"
    by (metis (mono_tags, lifting) filter_cong)
  ultimately have "ranked pool now = filter isNewItem pool" by (simp add: ranked_def)
  then show ?thesis by (simp add: selectNextPhrase_def split: list.splits)
qed

end
